theory Spec2Isabelle
  imports Complex_Main
begin

section \<open>Data model\<close>

text \<open>
  The rows of \<^verbatim>\<open>src/shared/schema.ts\<close>, restricted to the columns that the
  modelled route handlers read or write. A \<^verbatim>\<open>uuid\<close> is an abstract key (never
  the empty string, so that \<^verbatim>\<open>id || null\<close> keeps it), a
  JavaScript \<^verbatim>\<open>Number\<close> and a \<^verbatim>\<open>decimal\<close> column are exact real numbers (the
  rounding of IEEE doubles and of the column scale is not modelled), an \<^verbatim>\<open>integer\<close>
  column is an \<open>int\<close>, a \<^verbatim>\<open>timestamp\<close> is a number of milliseconds. Columns that the
  schema declares with a default are taken to be non-null, except \<^verbatim>\<open>is_active\<close>,
  whose truthiness the login path tests.
\<close>

type_synonym uuid = nat
type_synonym number = real
type_synonym timestamp = int

record user_row =
  user_id :: uuid
  user_email :: string
  user_password :: string
  user_name :: string
  user_role :: string
  user_isActive :: "bool option"

record supplier_row =
  supplier_name :: string
  supplier_balance :: number
  supplier_updatedAt :: timestamp

record product_row =
  product_costPrice :: number
  product_sellingPrice :: number
  product_stock :: int
  product_updatedAt :: timestamp

record serial_number_row =
  serial_productId :: "uuid option"
  serial_status :: string
  serial_saleId :: "uuid option"
  serial_customerId :: "uuid option"

record customer_row =
  customer_name :: string
  customer_totalSpent :: number
  customer_loyaltyPoints :: int
  customer_lastPurchase :: "timestamp option"
  customer_updatedAt :: timestamp

text \<open>The invoice number is the template literal \<^verbatim>\<open>`INV-${Date.now()}`\<close>.\<close>

datatype invoice_number = INV timestamp

record sale_row =
  sale_id :: uuid
  sale_invoiceNumber :: invoice_number
  sale_customerId :: "uuid option"
  sale_userId :: uuid
  sale_subtotal :: number
  sale_discount :: number
  sale_tax :: number
  sale_total :: number
  sale_profit :: number
  sale_status :: string
  sale_paymentStatus :: string
  sale_notes :: "string option"
  sale_createdAt :: timestamp

record sale_item_row =
  si_saleId :: uuid
  si_productId :: uuid
  si_variantId :: "uuid option"
  si_serialNumber :: "string option"
  si_quantity :: int
  si_unitPrice :: number
  si_costPrice :: number
  si_total :: number
  si_profit :: number

record payment_row =
  payment_saleId :: uuid
  payment_method :: string
  payment_amount :: number
  payment_reference :: "string option"
  payment_cashGiven :: "number option"
  payment_change :: "number option"
  payment_createdAt :: timestamp

record purchase_row =
  purchase_id :: uuid
  purchase_supplierId :: "uuid option"
  purchase_userId :: uuid
  purchase_invoiceNumber :: "string option"
  purchase_total :: number
  purchase_paid :: number
  purchase_balance :: number
  purchase_status :: string
  purchase_documents :: "string option"
  purchase_createdAt :: timestamp

record purchase_item_row =
  pi_purchaseId :: uuid
  pi_productId :: uuid
  pi_variantId :: "uuid option"
  pi_quantity :: int
  pi_unitCost :: number
  pi_total :: number
  pi_serialNumbers :: "string list option"

record quotation_row =
  quotation_quoteNumber :: string
  quotation_customerId :: "uuid option"
  quotation_discount :: number
  quotation_tax :: number
  quotation_status :: string
  quotation_updatedAt :: timestamp

record quote_item_row =
  qi_quoteId :: uuid
  qi_productId :: "uuid option"
  qi_variantId :: "uuid option"
  qi_quantity :: int
  qi_unitPrice :: number

record rma_row =
  rma_serialNumber :: "string option"
  rma_status :: string
  rma_notes :: "string option"
  rma_updatedAt :: timestamp

text \<open>An entry of the \<^verbatim>\<open>components\<close> JSON array of a PC build.\<close>

record component =
  component_productId :: uuid
  component_quantity :: int

record pc_build_row =
  build_name :: string
  build_customerId :: "uuid option"
  build_components :: "component list option"
  build_status :: string
  build_updatedAt :: timestamp

text \<open>
  The store. A table whose rows the handlers address by a primary or unique key is a map
  from that key (users by email, serial numbers by their serial number string, the others
  by id); a table the handlers only insert into is the list of its rows in insertion
  order.
\<close>

record database =
  users :: "string \<rightharpoonup> user_row"
  suppliers :: "uuid \<rightharpoonup> supplier_row"
  products :: "uuid \<rightharpoonup> product_row"
  serialNumbers :: "string \<rightharpoonup> serial_number_row"
  customers :: "uuid \<rightharpoonup> customer_row"
  sales :: "sale_row list"
  saleItems :: "sale_item_row list"
  payments :: "payment_row list"
  purchases :: "purchase_row list"
  purchaseItems :: "purchase_item_row list"
  quotations :: "uuid \<rightharpoonup> quotation_row"
  quoteItems :: "quote_item_row list"
  rmas :: "uuid \<rightharpoonup> rma_row"
  pcBuilds :: "uuid \<rightharpoonup> pc_build_row"

section \<open>Requests, responses and the store's environment\<close>

text \<open>
  What a request cannot determine is a parameter: the readings of the clock, the uuid the
  store gives to an inserted parent row, and whether the store throws. Every handler
  wraps its body in \<^verbatim>\<open>try { ... } catch\<close>, answers 500 from the \<^verbatim>\<open>catch\<close>, and
  undoes nothing; \<open>fault\<close> is the index (from 0, in the order the request issues them)
  of the store statement that throws, if one does. \<open>clock k\<close> is the value of
  \<^verbatim>\<open>new Date()\<close> and of \<^verbatim>\<open>Date.now()\<close> while the request prepares its statement
  number \<open>k\<close>.
\<close>

record env =
  clock :: "nat \<Rightarrow> timestamp"
  fault :: "nat option"
  new_id :: uuid

text \<open>A line item and a payment of a sale-creation request.\<close>

record sale_item_input =
  item_productId :: uuid
  item_variantId :: "uuid option"
  item_serialNumber :: "string option"
  item_quantity :: int
  item_unitPrice :: number
  item_costPrice :: number

record payment_input =
  pay_method :: string
  pay_amount :: number
  pay_reference :: "string option"
  pay_cashGiven :: "number option"
  pay_change :: "number option"

text \<open>The payload that the convert-to-sale handlers build (\<^verbatim>\<open>saleData\<close>).\<close>

record converted_item =
  ci_productId :: "uuid option"
  ci_variantId :: "uuid option"
  ci_quantity :: int
  ci_unitPrice :: number
  ci_costPrice :: number

record sale_data =
  sd_customerId :: "uuid option"
  sd_items :: "converted_item list"
  sd_discount :: number
  sd_tax :: number
  sd_payments :: "payment_input list option"
  sd_notes :: string

text \<open>The user of a response, \<^verbatim>\<open>const { password, ...userWithoutPassword } = user\<close>.\<close>

record user_view =
  view_id :: uuid
  view_email :: string
  view_name :: string
  view_role :: string
  view_isActive :: "bool option"

datatype json =
    ErrorJson string
  | SaleJson sale_row
  | PurchaseJson purchase_row
  | RmaJson rma_row
  | ConvertedJson string sale_data
  | UserJson user_view

text \<open>\<^verbatim>\<open>res.status(s).json(b)\<close>; \<^verbatim>\<open>res.json(b)\<close> is status 200.\<close>

datatype response = Response (status: nat) (body: json)

text \<open>
  A store statement: the clock reading taken while it is prepared, and the store before,
  give the store after. \<open>run_statements\<close> issues a list of them in order, counting from
  \<open>k\<close>; it stops, keeping what was written, at the statement that throws.
\<close>

type_synonym statement = "timestamp \<Rightarrow> database \<Rightarrow> database"

fun run_statements :: "env \<Rightarrow> nat \<Rightarrow> statement list \<Rightarrow> database \<Rightarrow> bool \<times> database" where
  "run_statements e k [] d = (True, d)"
| "run_statements e k (s # ss) d =
     (if fault e = Some k then (False, d)
      else run_statements e (Suc k) ss (s (clock e k) d))"

text \<open>JavaScript truthiness of an optional string and of an optional number.\<close>

fun truthy_string :: "string option \<Rightarrow> bool" where
  "truthy_string None = False"
| "truthy_string (Some s) = (s \<noteq> [])"

fun truthy_number :: "number option \<Rightarrow> bool" where
  "truthy_number None = False"
| "truthy_number (Some x) = (x \<noteq> 0)"

text \<open>\<^verbatim>\<open>x || null\<close> and \<^verbatim>\<open>x ? x.toString() : null\<close>.\<close>

definition string_or_null :: "string option \<Rightarrow> string option" where
  "string_or_null x = (if truthy_string x then x else None)"

definition number_or_null :: "number option \<Rightarrow> number option" where
  "number_or_null x = (if truthy_number x then x else None)"

text \<open>\<^verbatim>\<open>const { a = 0 } = req.body\<close>.\<close>

fun default_zero :: "number option \<Rightarrow> number" where
  "default_zero None = 0"
| "default_zero (Some x) = x"

section \<open>Middleware (\<^verbatim>\<open>routes/auth.ts\<close>)\<close>

text \<open>
  \<open>requireAuth\<close> and \<open>requireRole\<close> give the response that ends the request, or \<open>None\<close>
  when they call \<^verbatim>\<open>next()\<close>. The session user is \<^verbatim>\<open>req.user\<close>;
  \<^verbatim>\<open>req.isAuthenticated()\<close> holds when there is one.
\<close>

definition requireAuth :: "user_row option \<Rightarrow> response option" where
  "requireAuth user =
     (case user of
        Some u \<Rightarrow> None
      | None \<Rightarrow> Some (Response 401 (ErrorJson ''Authentication required'')))"

definition requireRole :: "string list \<Rightarrow> user_row option \<Rightarrow> response option" where
  "requireRole roles user =
     (case user of
        None \<Rightarrow> Some (Response 403 (ErrorJson ''Insufficient permissions''))
      | Some u \<Rightarrow>
          if user_role u \<notin> set roles
          then Some (Response 403 (ErrorJson ''Insufficient permissions''))
          else None)"

section \<open>Sale creation (\<^verbatim>\<open>POST /api/sales\<close>)\<close>

text \<open>
  \<^verbatim>\<open>src/server/routes/sales.ts\<close>, lines 157 to 270. The body of the request, with
  \<open>None\<close> for a field that is absent.
\<close>

record sale_body =
  body_customerId :: "uuid option"
  body_items :: "sale_item_input list option"
  body_discount :: "number option"
  body_tax :: "number option"
  body_payments :: "payment_input list option"
  body_notes :: "string option"

text \<open>The first loop: \<open>subtotal\<close> and \<open>totalProfit\<close> accumulate from 0 over the items.\<close>

fun calc_totals :: "number \<times> number \<Rightarrow> sale_item_input list \<Rightarrow> number \<times> number" where
  "calc_totals (subtotal, totalProfit) [] = (subtotal, totalProfit)"
| "calc_totals (subtotal, totalProfit) (item # items) =
     calc_totals
       (subtotal + item_unitPrice item * of_int (item_quantity item),
        totalProfit + (item_unitPrice item - item_costPrice item) * of_int (item_quantity item))
       items"

definition new_sale :: "env \<Rightarrow> user_row \<Rightarrow> sale_body \<Rightarrow> sale_item_input list \<Rightarrow> sale_row" where
  "new_sale e u b items =
     (let discount = default_zero (body_discount b);
          tax = default_zero (body_tax b);
          (subtotal, totalProfit) = calc_totals (0, 0) items;
          total' = subtotal - discount + tax
      in \<lparr> sale_id = new_id e,
           sale_invoiceNumber = INV (clock e 0),
           sale_customerId = body_customerId b,
           sale_userId = user_id u,
           sale_subtotal = subtotal,
           sale_discount = discount,
           sale_tax = tax,
           sale_total = total',
           sale_profit = totalProfit,
           sale_status = ''completed'',
           sale_paymentStatus = ''paid'',
           sale_notes = body_notes b,
           sale_createdAt = clock e 0 \<rparr>)"

definition insert_sale :: "sale_row \<Rightarrow> statement" where
  "insert_sale row t d = d\<lparr> sales := sales d @ [row] \<rparr>"

definition insert_sale_item :: "uuid \<Rightarrow> sale_item_input \<Rightarrow> statement" where
  "insert_sale_item saleId item t d =
     d\<lparr> saleItems := saleItems d @
         [\<lparr> si_saleId = saleId,
            si_productId = item_productId item,
            si_variantId = item_variantId item,
            si_serialNumber = string_or_null (item_serialNumber item),
            si_quantity = item_quantity item,
            si_unitPrice = item_unitPrice item,
            si_costPrice = item_costPrice item,
            si_total = item_unitPrice item * of_int (item_quantity item),
            si_profit = (item_unitPrice item - item_costPrice item) * of_int (item_quantity item) \<rparr>] \<rparr>"

text \<open>
  An \<^verbatim>\<open>update ... where key = k\<close> rewrites the row with that key and is a no-op when
  there is none.
\<close>

definition update_where :: "('k \<rightharpoonup> 'r) \<Rightarrow> 'k \<Rightarrow> ('r \<Rightarrow> 'r) \<Rightarrow> ('k \<rightharpoonup> 'r)" where
  "update_where table k f = (case table k of None \<Rightarrow> table | Some row \<Rightarrow> table(k \<mapsto> f row))"

definition decrement_stock :: "sale_item_input \<Rightarrow> statement" where
  "decrement_stock item t d =
     d\<lparr> products := update_where (products d) (item_productId item)
         (\<lambda>p. p\<lparr> product_stock := product_stock p - item_quantity item,
                  product_updatedAt := t \<rparr>) \<rparr>"

definition mark_serial_sold :: "uuid \<Rightarrow> uuid option \<Rightarrow> string \<Rightarrow> statement" where
  "mark_serial_sold saleId customerId serialNumber t d =
     d\<lparr> serialNumbers := update_where (serialNumbers d) serialNumber
         (\<lambda>s. s\<lparr> serial_status := ''sold'',
                  serial_saleId := Some saleId,
                  serial_customerId := customerId \<rparr>) \<rparr>"

text \<open>The statements of one pass of the second loop, in the order they are awaited.\<close>

definition item_statements :: "uuid \<Rightarrow> uuid option \<Rightarrow> sale_item_input \<Rightarrow> statement list" where
  "item_statements saleId customerId item =
     [insert_sale_item saleId item, decrement_stock item] @
     (case item_serialNumber item of
        None \<Rightarrow> []
      | Some serialNumber \<Rightarrow>
          if serialNumber \<noteq> [] then [mark_serial_sold saleId customerId serialNumber] else [])"

definition insert_payment :: "uuid \<Rightarrow> payment_input \<Rightarrow> statement" where
  "insert_payment saleId payment t d =
     d\<lparr> payments := payments d @
         [\<lparr> payment_saleId = saleId,
            payment_method = pay_method payment,
            payment_amount = pay_amount payment,
            payment_reference = string_or_null (pay_reference payment),
            payment_cashGiven = number_or_null (pay_cashGiven payment),
            payment_change = number_or_null (pay_change payment),
            payment_createdAt = t \<rparr>] \<rparr>"

definition payment_statements :: "uuid \<Rightarrow> payment_input list option \<Rightarrow> statement list" where
  "payment_statements saleId salePayments =
     (case salePayments of
        None \<Rightarrow> []
      | Some ps \<Rightarrow> if ps \<noteq> [] then map (insert_payment saleId) ps else [])"

definition update_customer_stats :: "uuid \<Rightarrow> number \<Rightarrow> statement" where
  "update_customer_stats customerId total' t d =
     d\<lparr> customers := update_where (customers d) customerId
         (\<lambda>c. c\<lparr> customer_totalSpent := customer_totalSpent c + total',
                  customer_lastPurchase := Some t,
                  customer_loyaltyPoints := customer_loyaltyPoints c + \<lfloor>total' / 100\<rfloor>,
                  customer_updatedAt := t \<rparr>) \<rparr>"

definition customer_statements :: "uuid option \<Rightarrow> number \<Rightarrow> statement list" where
  "customer_statements customerId total' =
     (case customerId of
        None \<Rightarrow> []
      | Some c \<Rightarrow> [update_customer_stats c total'])"

definition sale_statements :: "sale_row \<Rightarrow> sale_body \<Rightarrow> sale_item_input list \<Rightarrow> statement list" where
  "sale_statements newSale b items =
     insert_sale newSale #
     concat (map (item_statements (sale_id newSale) (body_customerId b)) items) @
     payment_statements (sale_id newSale) (body_payments b) @
     customer_statements (body_customerId b) (sale_total newSale)"

text \<open>
  The handler proper. \<^verbatim>\<open>(req.user as any).id\<close> throws when there is no session user,
  which the \<^verbatim>\<open>catch\<close> turns into the 500 (behind \<open>requireAuth\<close> there always is one).
\<close>

definition create_sale :: "env \<Rightarrow> user_row option \<Rightarrow> sale_body \<Rightarrow> database \<Rightarrow> response \<times> database" where
  "create_sale e user b d =
     (case body_items b of
        None \<Rightarrow> (Response 400 (ErrorJson ''Sale items are required''), d)
      | Some items \<Rightarrow>
          if items = [] then (Response 400 (ErrorJson ''Sale items are required''), d)
          else
            (case user of
               None \<Rightarrow> (Response 500 (ErrorJson ''Failed to create sale''), d)
             | Some u \<Rightarrow>
                 (let newSale = new_sale e u b items;
                      (completed, d') = run_statements e 0 (sale_statements newSale b items) d
                  in if completed then (Response 201 (SaleJson newSale), d')
                     else (Response 500 (ErrorJson ''Failed to create sale''), d'))))"

definition post_sales :: "env \<Rightarrow> user_row option \<Rightarrow> sale_body \<Rightarrow> database \<Rightarrow> response \<times> database" where
  "post_sales e user b d =
     (case requireAuth user of
        Some rejected \<Rightarrow> (rejected, d)
      | None \<Rightarrow> create_sale e user b d)"


section \<open>Purchase creation (\<^verbatim>\<open>POST /api/purchases\<close>)\<close>

text \<open>\<^verbatim>\<open>src/server/routes/purchases.ts\<close>, lines 120 to 181.\<close>

record purchase_item_input =
  pitem_productId :: uuid
  pitem_variantId :: "uuid option"
  pitem_quantity :: int
  pitem_unitCost :: number
  pitem_serialNumbers :: "string list option"

record purchase_body =
  pbody_supplierId :: "uuid option"
  pbody_invoiceNumber :: "string option"
  pbody_items :: "purchase_item_input list option"
  pbody_documents :: "string option"

text \<open>The loop that accumulates \<open>total\<close> from 0.\<close>

fun calc_total :: "number \<Rightarrow> purchase_item_input list \<Rightarrow> number" where
  "calc_total total' [] = total'"
| "calc_total total' (item # items) =
     calc_total (total' + pitem_unitCost item * of_int (pitem_quantity item)) items"

definition new_purchase :: "env \<Rightarrow> user_row \<Rightarrow> purchase_body \<Rightarrow> purchase_item_input list \<Rightarrow> purchase_row" where
  "new_purchase e u b items =
     (let total' = calc_total 0 items
      in \<lparr> purchase_id = new_id e,
           purchase_supplierId = pbody_supplierId b,
           purchase_userId = user_id u,
           purchase_invoiceNumber = pbody_invoiceNumber b,
           purchase_total = total',
           purchase_paid = 0,
           purchase_balance = total',
           purchase_status = ''pending'',
           purchase_documents = pbody_documents b,
           purchase_createdAt = clock e 0 \<rparr>)"

definition insert_purchase :: "purchase_row \<Rightarrow> statement" where
  "insert_purchase row t d = d\<lparr> purchases := purchases d @ [row] \<rparr>"

text \<open>\<^verbatim>\<open>item.serialNumbers || null\<close>: an array, even an empty one, is truthy.\<close>

definition insert_purchase_item :: "uuid \<Rightarrow> purchase_item_input \<Rightarrow> statement" where
  "insert_purchase_item purchaseId item t d =
     d\<lparr> purchaseItems := purchaseItems d @
         [\<lparr> pi_purchaseId = purchaseId,
            pi_productId = pitem_productId item,
            pi_variantId = pitem_variantId item,
            pi_quantity = pitem_quantity item,
            pi_unitCost = pitem_unitCost item,
            pi_total = pitem_unitCost item * of_int (pitem_quantity item),
            pi_serialNumbers = pitem_serialNumbers item \<rparr>] \<rparr>"

definition restock :: "purchase_item_input \<Rightarrow> statement" where
  "restock item t d =
     d\<lparr> products := update_where (products d) (pitem_productId item)
         (\<lambda>p. p\<lparr> product_stock := product_stock p + pitem_quantity item,
                  product_costPrice := pitem_unitCost item,
                  product_updatedAt := t \<rparr>) \<rparr>"

definition purchase_item_statements :: "uuid \<Rightarrow> purchase_item_input \<Rightarrow> statement list" where
  "purchase_item_statements purchaseId item = [insert_purchase_item purchaseId item, restock item]"

definition purchase_statements :: "purchase_row \<Rightarrow> purchase_item_input list \<Rightarrow> statement list" where
  "purchase_statements newPurchase items =
     insert_purchase newPurchase #
     concat (map (purchase_item_statements (purchase_id newPurchase)) items)"

definition create_purchase ::
  "env \<Rightarrow> user_row option \<Rightarrow> purchase_body \<Rightarrow> database \<Rightarrow> response \<times> database" where
  "create_purchase e user b d =
     (case pbody_items b of
        None \<Rightarrow> (Response 400 (ErrorJson ''Purchase items are required''), d)
      | Some items \<Rightarrow>
          if items = [] then (Response 400 (ErrorJson ''Purchase items are required''), d)
          else
            (case user of
               None \<Rightarrow> (Response 500 (ErrorJson ''Failed to create purchase''), d)
             | Some u \<Rightarrow>
                 (let newPurchase = new_purchase e u b items;
                      (completed, d') = run_statements e 0 (purchase_statements newPurchase items) d
                  in if completed then (Response 201 (PurchaseJson newPurchase), d')
                     else (Response 500 (ErrorJson ''Failed to create purchase''), d'))))"

definition post_purchases ::
  "env \<Rightarrow> user_row option \<Rightarrow> purchase_body \<Rightarrow> database \<Rightarrow> response \<times> database" where
  "post_purchases e user b d =
     (case requireAuth user of
        Some rejected \<Rightarrow> (rejected, d)
      | None \<Rightarrow>
          (case requireRole [''admin'', ''manager''] user of
             Some rejected \<Rightarrow> (rejected, d)
           | None \<Rightarrow> create_purchase e user b d))"

section \<open>RMA status update (\<^verbatim>\<open>PUT /api/rma/:id\<close>)\<close>

text \<open>
  \<^verbatim>\<open>src/server/routes/quotations.ts\<close>, lines 707 to 747 (the RMA router).
  A \<^verbatim>\<open>select\<close> leaves the store as it is; like every statement it is counted and may
  throw. What it returns is read off the store it ran on.
\<close>

definition select :: statement where
  "select t d = d"









section \<open>Login (\<^verbatim>\<open>LocalStrategy\<close> in \<^verbatim>\<open>server/index.ts\<close>, \<^verbatim>\<open>POST /api/auth/login\<close>)\<close>






section \<open>Convert to sale (\<^verbatim>\<open>POST /api/quotations/:id/convert-to-sale\<close>, \<^verbatim>\<open>POST /api/pc-builder/:id/convert-to-sale\<close>)\<close>

text \<open>
  \<^verbatim>\<open>src/server/routes/quotations.ts\<close>, lines 218 to 276, and
  \<^verbatim>\<open>src/server/routes/pc-builder.ts\<close>, lines 183 to 235. The quotation handler reads
  only the payments and the notes of the body.
\<close>

record convert_body =
  cbody_discount :: "number option"
  cbody_tax :: "number option"
  cbody_payments :: "payment_input list option"
  cbody_notes :: "string option"

text \<open>\<^verbatim>\<open>saleNotes || `...`\<close>.\<close>

definition notes_or :: "string option \<Rightarrow> string \<Rightarrow> string" where
  "notes_or saleNotes fallback =
     (case saleNotes of
        None \<Rightarrow> fallback
      | Some notes \<Rightarrow> if notes \<noteq> [] then notes else fallback)"

text \<open>
  One row of the left join of the quote items with the products:
  \<^verbatim>\<open>Number(item.product?.costPrice || 0)\<close> is 0 when no product is joined.
\<close>

definition quote_sale_item :: "database \<Rightarrow> quote_item_row \<Rightarrow> converted_item" where
  "quote_sale_item d item =
     \<lparr> ci_productId = qi_productId item,
       ci_variantId = qi_variantId item,
       ci_quantity = qi_quantity item,
       ci_unitPrice = qi_unitPrice item,
       ci_costPrice =
         (case qi_productId item of
            None \<Rightarrow> 0
          | Some p \<Rightarrow> (case products d p of None \<Rightarrow> 0 | Some product \<Rightarrow> product_costPrice product)) \<rparr>"

definition quotation_sale_data :: "database \<Rightarrow> uuid \<Rightarrow> quotation_row \<Rightarrow> convert_body \<Rightarrow> sale_data" where
  "quotation_sale_data d id' quote b =
     \<lparr> sd_customerId = quotation_customerId quote,
       sd_items = map (quote_sale_item d) (filter (\<lambda>item. qi_quoteId item = id') (quoteItems d)),
       sd_discount = quotation_discount quote,
       sd_tax = quotation_tax quote,
       sd_payments = cbody_payments b,
       sd_notes = notes_or (cbody_notes b)
                    (''Converted from Quotation: '' @ quotation_quoteNumber quote) \<rparr>"

definition mark_converted :: "uuid \<Rightarrow> statement" where
  "mark_converted id' t d =
     d\<lparr> quotations := update_where (quotations d) id'
         (\<lambda>q. q\<lparr> quotation_status := ''converted'', quotation_updatedAt := t \<rparr>) \<rparr>"

definition convert_quotation :: "env \<Rightarrow> uuid \<Rightarrow> convert_body \<Rightarrow> database \<Rightarrow> response \<times> database" where
  "convert_quotation e id' b d =
     (case run_statements e 0 [select] d of
        (False, d0) \<Rightarrow> (Response 500 (ErrorJson ''Failed to convert quotation to sale''), d0)
      | (True, d0) \<Rightarrow>
          (case quotations d0 id' of
             None \<Rightarrow> (Response 404 (ErrorJson ''Quotation not found''), d0)
           | Some quote \<Rightarrow>
               (case run_statements e 1 [select] d0 of
                  (False, d1) \<Rightarrow>
                    (Response 500 (ErrorJson ''Failed to convert quotation to sale''), d1)
                | (True, d1) \<Rightarrow>
                    (let saleData = quotation_sale_data d1 id' quote b;
                         (completed, d') = run_statements e 2 [mark_converted id'] d1
                     in if completed
                        then (Response 200
                                (ConvertedJson ''Quotation converted to sale successfully'' saleData), d')
                        else (Response 500 (ErrorJson ''Failed to convert quotation to sale''), d')))))"

definition post_quotations_convert_to_sale ::
  "env \<Rightarrow> user_row option \<Rightarrow> uuid \<Rightarrow> convert_body \<Rightarrow> database \<Rightarrow> response \<times> database" where
  "post_quotations_convert_to_sale e user id' b d =
     (case requireAuth user of
        Some rejected \<Rightarrow> (rejected, d)
      | None \<Rightarrow> convert_quotation e id' b d)"

text \<open>
  The PC build's loop selects the product of each component and pushes a sale item when
  it finds one.
\<close>

definition component_sale_items :: "database \<Rightarrow> component \<Rightarrow> converted_item list" where
  "component_sale_items d c =
     (case products d (component_productId c) of
        None \<Rightarrow> []
      | Some product \<Rightarrow>
          [\<lparr> ci_productId = Some (component_productId c),
             ci_variantId = None,
             ci_quantity = component_quantity c,
             ci_unitPrice = product_sellingPrice product,
             ci_costPrice = product_costPrice product \<rparr>])"

definition build_sale_data :: "database \<Rightarrow> pc_build_row \<Rightarrow> convert_body \<Rightarrow> sale_data" where
  "build_sale_data d buildData b =
     (let components = (case build_components buildData of None \<Rightarrow> [] | Some cs \<Rightarrow> cs)
      in \<lparr> sd_customerId = build_customerId buildData,
           sd_items = concat (map (component_sale_items d) components),
           sd_discount = default_zero (cbody_discount b),
           sd_tax = default_zero (cbody_tax b),
           sd_payments = cbody_payments b,
           sd_notes = notes_or (cbody_notes b)
                        (''Converted from PC Build: '' @ build_name buildData) \<rparr>)"

definition mark_purchased :: "uuid \<Rightarrow> statement" where
  "mark_purchased id' t d =
     d\<lparr> pcBuilds := update_where (pcBuilds d) id'
         (\<lambda>p. p\<lparr> build_status := ''purchased'', build_updatedAt := t \<rparr>) \<rparr>"

definition convert_build :: "env \<Rightarrow> uuid \<Rightarrow> convert_body \<Rightarrow> database \<Rightarrow> response \<times> database" where
  "convert_build e id' b d =
     (case run_statements e 0 [select] d of
        (False, d0) \<Rightarrow> (Response 500 (ErrorJson ''Failed to convert PC build to sale''), d0)
      | (True, d0) \<Rightarrow>
          (case pcBuilds d0 id' of
             None \<Rightarrow> (Response 404 (ErrorJson ''PC build not found''), d0)
           | Some buildData \<Rightarrow>
               (let components = (case build_components buildData of None \<Rightarrow> [] | Some cs \<Rightarrow> cs)
                in case run_statements e 1 (map (\<lambda>c. select) components) d0 of
                     (False, d1) \<Rightarrow>
                       (Response 500 (ErrorJson ''Failed to convert PC build to sale''), d1)
                   | (True, d1) \<Rightarrow>
                       (let saleData = build_sale_data d1 buildData b;
                            (completed, d') =
                               run_statements e (1 + length components) [mark_purchased id'] d1
                        in if completed
                           then (Response 200
                                   (ConvertedJson ''PC build converted to sale successfully'' saleData), d')
                           else (Response 500 (ErrorJson ''Failed to convert PC build to sale''), d')))))"

definition post_pc_builder_convert_to_sale ::
  "env \<Rightarrow> user_row option \<Rightarrow> uuid \<Rightarrow> convert_body \<Rightarrow> database \<Rightarrow> response \<times> database" where
  "post_pc_builder_convert_to_sale e user id' b d =
     (case requireAuth user of
        Some rejected \<Rightarrow> (rejected, d)
      | None \<Rightarrow> convert_build e id' b d)"

section \<open>Example data\<close>

text \<open>
  A small shop used to run the handlers on concrete requests: a clock that advances by one
  millisecond per statement, a store that accepts every statement, product 10 with cost
  100, price 150 and 10 in stock, product 11 out of stock, its unit \<^verbatim>\<open>SN-1\<close>,
  customer 5 who has bought nothing yet, supplier 3 to whom nothing is owed, three users
  (one of them deactivated), an RMA under review for the unit \<^verbatim>\<open>SN-2\<close>, a quotation
  that was sent, and a saved PC build one of whose components is no longer a product.
\<close>

definition ex_clock :: "nat \<Rightarrow> timestamp" where
  "ex_clock k = 1000 + int k"

definition ex_env :: env where
  "ex_env = \<lparr> clock = ex_clock, fault = None, new_id = 7 \<rparr>"

definition ex_user :: user_row where
  "ex_user = \<lparr> user_id = 1, user_email = ''staff@shop'', user_password = ''hash:secret'',
               user_name = ''Staff'', user_role = ''staff'', user_isActive = Some True \<rparr>"

definition ex_product :: product_row where
  "ex_product = \<lparr> product_costPrice = 100, product_sellingPrice = 150, product_stock = 10,
                  product_updatedAt = 0 \<rparr>"

definition empty_database :: database where
  "empty_database =
     \<lparr> users = Map.empty, suppliers = Map.empty, products = Map.empty,
       serialNumbers = Map.empty, customers = Map.empty, sales = [], saleItems = [],
       payments = [], purchases = [], purchaseItems = [], quotations = Map.empty,
       quoteItems = [], rmas = Map.empty, pcBuilds = Map.empty \<rparr>"

definition ex_sold_out :: product_row where
  "ex_sold_out = \<lparr> product_costPrice = 200, product_sellingPrice = 250, product_stock = 0,
                   product_updatedAt = 0 \<rparr>"

definition ex_serial :: serial_number_row where
  "ex_serial = \<lparr> serial_productId = Some 11, serial_status = ''available'',
                 serial_saleId = None, serial_customerId = None \<rparr>"

definition ex_customer :: customer_row where
  "ex_customer = \<lparr> customer_name = ''Customer'', customer_totalSpent = 0,
                   customer_loyaltyPoints = 0, customer_lastPurchase = None,
                   customer_updatedAt = 0 \<rparr>"

definition ex_supplier :: supplier_row where
  "ex_supplier = \<lparr> supplier_name = ''Supplier'', supplier_balance = 0, supplier_updatedAt = 0 \<rparr>"

definition ex_manager :: user_row where
  "ex_manager = ex_user\<lparr> user_id := 2, user_email := ''manager@shop'', user_role := ''manager'' \<rparr>"

definition ex_former :: user_row where
  "ex_former = \<lparr> user_id = 9, user_email = ''former@shop'', user_password = ''hash:old'',
                 user_name = ''Former'', user_role = ''staff'', user_isActive = Some False \<rparr>"

text \<open>A stand-in for \<^verbatim>\<open>bcrypt.compare\<close> on the example hashes.\<close>

definition ex_compare :: "string \<Rightarrow> string \<Rightarrow> bool" where
  "ex_compare password hash = (hash = ''hash:'' @ password)"

definition ex_returned_unit :: serial_number_row where
  "ex_returned_unit = \<lparr> serial_productId = Some 10, serial_status = ''rma'',
                        serial_saleId = Some 1, serial_customerId = Some 5 \<rparr>"

definition ex_rma :: rma_row where
  "ex_rma = \<lparr> rma_serialNumber = Some ''SN-2'', rma_status = ''under_review'',
              rma_notes = None, rma_updatedAt = 0 \<rparr>"

definition ex_quotation :: quotation_row where
  "ex_quotation = \<lparr> quotation_quoteNumber = ''QT-1'', quotation_customerId = Some 5,
                    quotation_discount = 10, quotation_tax = 0, quotation_status = ''sent'',
                    quotation_updatedAt = 0 \<rparr>"

definition ex_quote_item :: quote_item_row where
  "ex_quote_item = \<lparr> qi_quoteId = 30, qi_productId = Some 10, qi_variantId = None,
                     qi_quantity = 1, qi_unitPrice = 150 \<rparr>"

definition ex_build :: pc_build_row where
  "ex_build = \<lparr> build_name = ''Gaming PC'', build_customerId = Some 5,
                build_components = Some
                  [\<lparr> component_productId = 10, component_quantity = 1 \<rparr>,
                   \<lparr> component_productId = 99, component_quantity = 1 \<rparr>],
                build_status = ''saved'', build_updatedAt = 0 \<rparr>"

definition ex_db :: database where
  "ex_db = empty_database\<lparr> users := [''staff@shop'' \<mapsto> ex_user, ''manager@shop'' \<mapsto> ex_manager,
                                       ''former@shop'' \<mapsto> ex_former],
                             products := [10 \<mapsto> ex_product, 11 \<mapsto> ex_sold_out],
                             serialNumbers := [''SN-1'' \<mapsto> ex_serial, ''SN-2'' \<mapsto> ex_returned_unit],
                             customers := [5 \<mapsto> ex_customer],
                             suppliers := [3 \<mapsto> ex_supplier],
                             rmas := [20 \<mapsto> ex_rma],
                             quotations := [30 \<mapsto> ex_quotation],
                             quoteItems := [ex_quote_item],
                             pcBuilds := [40 \<mapsto> ex_build] \<rparr>"

definition ex_item :: sale_item_input where
  "ex_item = \<lparr> item_productId = 10, item_variantId = None, item_serialNumber = None,
               item_quantity = 2, item_unitPrice = 150, item_costPrice = 100 \<rparr>"

definition ex_sale_body :: sale_body where
  "ex_sale_body = \<lparr> body_customerId = None, body_items = Some [ex_item], body_discount = None,
                    body_tax = None, body_payments = None, body_notes = None \<rparr>"

definition ex_serial_item :: sale_item_input where
  "ex_serial_item = \<lparr> item_productId = 11, item_variantId = None,
                      item_serialNumber = Some ''SN-1'', item_quantity = 1,
                      item_unitPrice = 250, item_costPrice = 200 \<rparr>"

definition ex_cash :: payment_input where
  "ex_cash = \<lparr> pay_method = ''cash'', pay_amount = 100, pay_reference = None,
               pay_cashGiven = Some 100, pay_change = None \<rparr>"

definition ex_customer_sale_body :: sale_body where
  "ex_customer_sale_body =
     \<lparr> body_customerId = Some 5, body_items = Some [ex_item, ex_serial_item],
       body_discount = Some 50, body_tax = Some 25, body_payments = Some [ex_cash],
       body_notes = None \<rparr>"

definition ex_second_sale_body :: sale_body where
  "ex_second_sale_body = ex_sale_body\<lparr> body_customerId := Some 5, body_tax := Some 80 \<rparr>"

definition ex_requests :: "(env \<times> user_row option \<times> sale_body) list" where
  "ex_requests =
     [(ex_env, Some ex_user, ex_customer_sale_body),
      (ex_env\<lparr> new_id := 8 \<rparr>, Some ex_user, ex_second_sale_body)]"

definition ex_purchase_body :: purchase_body where
  "ex_purchase_body =
     \<lparr> pbody_supplierId = Some 3, pbody_invoiceNumber = Some ''S-100'',
       pbody_items = Some
         [\<lparr> pitem_productId = 10, pitem_variantId = None, pitem_quantity = 2,
            pitem_unitCost = 90, pitem_serialNumbers = None \<rparr>,
          \<lparr> pitem_productId = 10, pitem_variantId = None, pitem_quantity = 3,
            pitem_unitCost = 110, pitem_serialNumbers = None \<rparr>],
       pbody_documents = None \<rparr>"

definition ex_convert_body :: convert_body where
  "ex_convert_body = \<lparr> cbody_discount = None, cbody_tax = None, cbody_payments = None,
                       cbody_notes = None \<rparr>"

section \<open>Unfolding the handlers on the example data\<close>

lemmas sale_defs = post_sales_def requireAuth_def create_sale_def Let_def sale_statements_def
  item_statements_def payment_statements_def customer_statements_def new_sale_def
  insert_sale_def insert_sale_item_def decrement_stock_def mark_serial_sold_def
  insert_payment_def update_customer_stats_def update_where_def string_or_null_def
  number_or_null_def

lemmas ex_defs = ex_env_def ex_clock_def ex_user_def ex_db_def empty_database_def ex_product_def
  ex_sold_out_def ex_serial_def ex_customer_def ex_item_def ex_serial_item_def ex_cash_def
  ex_customer_sale_body_def ex_sale_body_def ex_second_sale_body_def ex_requests_def
  ex_supplier_def ex_manager_def ex_purchase_body_def ex_former_def ex_compare_def
  ex_returned_unit_def ex_rma_def ex_quotation_def ex_quote_item_def ex_build_def
  ex_convert_body_def

lemmas purchase_defs = post_purchases_def requireAuth_def requireRole_def create_purchase_def
  Let_def purchase_statements_def purchase_item_statements_def new_purchase_def
  insert_purchase_def insert_purchase_item_def restock_def update_where_def


lemmas convert_defs = post_quotations_convert_to_sale_def post_pc_builder_convert_to_sale_def
  requireAuth_def convert_quotation_def convert_build_def select_def Let_def
  mark_converted_def mark_purchased_def update_where_def

lemma ex_customer_sale_created:
  "status (fst (post_sales ex_env (Some ex_user) ex_customer_sale_body ex_db)) = 201"
  by (simp add: post_sales_def requireAuth_def create_sale_def Let_def sale_statements_def
      item_statements_def payment_statements_def customer_statements_def
      ex_env_def ex_customer_sale_body_def ex_item_def ex_serial_item_def split: prod.splits)

lemma ex_customer_sale_response:
  "fst (post_sales ex_env (Some ex_user) ex_customer_sale_body ex_db) =
     Response 201 (SaleJson
       \<lparr> sale_id = 7, sale_invoiceNumber = INV 1000, sale_customerId = Some 5, sale_userId = 1,
         sale_subtotal = 550, sale_discount = 50, sale_tax = 25, sale_total = 525,
         sale_profit = 150, sale_status = ''completed'', sale_paymentStatus = ''paid'',
         sale_notes = None, sale_createdAt = 1000 \<rparr>)"
  by (simp add: sale_defs ex_defs)


lemma ex_purchase_response:
  "fst (post_purchases ex_env (Some ex_manager) ex_purchase_body ex_db) =
     Response 201 (PurchaseJson
       \<lparr> purchase_id = 7, purchase_supplierId = Some 3, purchase_userId = 2,
         purchase_invoiceNumber = Some ''S-100'', purchase_total = 510, purchase_paid = 0,
         purchase_balance = 510, purchase_status = ''pending'', purchase_documents = None,
         purchase_createdAt = 1000 \<rparr>)"
  by (simp add: purchase_defs ex_defs)

section \<open>Running statements\<close>

lemma run_statements_append:
  "run_statements e k (xs @ ys) d =
     (case run_statements e k xs d of
        (True, d') \<Rightarrow> run_statements e (k + length xs) ys d'
      | (False, d') \<Rightarrow> (False, d'))"
  by (induction xs arbitrary: k d) (auto split: prod.splits bool.splits)

lemma run_statements_preserves:
  assumes "\<And>s t x. s \<in> set ss \<Longrightarrow> f (s t x) = f x"
  shows "f (snd (run_statements e k ss d)) = f d"
  using assms by (induction ss arbitrary: k d) auto

lemma run_statements_accepted:
  "fault e = None \<Longrightarrow> fst (run_statements e k ss d) = True"
  by (induction ss arbitrary: k d) simp_all

lemma run_statements_first:
  "run_statements e k (s # ss) d = (True, d') \<Longrightarrow> fault e \<noteq> Some k"
  by (auto split: if_splits)

lemma run_statements_append_success:
  assumes "run_statements e k (xs @ ys) d = (True, d')"
  obtains m where "run_statements e k xs d = (True, m)"
    and "run_statements e (k + length xs) ys m = (True, d')"
  using assms by (auto simp: run_statements_append split: prod.splits bool.splits)

lemma run_statements_invariant:
  assumes "\<And>s t x. s \<in> set ss \<Longrightarrow> P x \<Longrightarrow> P (s t x)" and "P d"
  shows "P (snd (run_statements e k ss d))"
  using assms by (induction ss arbitrary: k d) auto

lemma run_statements_success_preserves:
  assumes "run_statements e k ss d = (True, d')"
    and "\<And>s t x. s \<in> set ss \<Longrightarrow> f (s t x) = f x"
  shows "f d' = f d"
  using run_statements_preserves [of ss f e k d] assms by simp

lemma run_statements_success_invariant:
  assumes "run_statements e k ss d = (True, d')"
    and "\<And>s t x. s \<in> set ss \<Longrightarrow> P x \<Longrightarrow> P (s t x)" and "P d"
  shows "P d'"
  using run_statements_invariant [of ss P d e k] assms by simp

lemma run_selects:
  "fault e = None \<Longrightarrow> run_statements e k (map (\<lambda>c. select) cs) d = (True, d)"
  by (induction cs arbitrary: k) (simp_all add: select_def)

lemma update_where_apply:
  "update_where table k f k' =
     (if k' = k then map_option f (table k) else table k')"
  by (simp add: update_where_def split: option.splits)

section \<open>Sale creation: the persisted row\<close>


lemma item_statements_sales:
  "s \<in> set (item_statements saleId customerId item) \<Longrightarrow> sales (s t x) = sales x"
  by (auto simp: item_statements_def insert_sale_item_def decrement_stock_def mark_serial_sold_def
      split: option.splits if_splits)

lemma payment_statements_sales:
  "s \<in> set (payment_statements saleId ps) \<Longrightarrow> sales (s t x) = sales x"
  by (auto simp: payment_statements_def insert_payment_def split: option.splits if_splits)

lemma customer_statements_sales:
  "s \<in> set (customer_statements c total') \<Longrightarrow> sales (s t x) = sales x"
  by (auto simp: customer_statements_def update_customer_stats_def split: option.splits)

lemma sale_statements_sales:
  assumes "fault e \<noteq> Some 0"
  shows "sales (snd (run_statements e 0 (sale_statements newSale b items) d)) = sales d @ [newSale]"
proof -
  let ?rest = "concat (map (item_statements (sale_id newSale) (body_customerId b)) items) @
     payment_statements (sale_id newSale) (body_payments b) @
     customer_statements (body_customerId b) (sale_total newSale)"
  have "sales (snd (run_statements e (Suc 0) ?rest (insert_sale newSale (clock e 0) d)))
        = sales (insert_sale newSale (clock e 0) d)"
    by (rule run_statements_preserves)
       (auto simp: item_statements_sales payment_statements_sales customer_statements_sales)
  then show ?thesis
    using assms by (simp add: sale_statements_def insert_sale_def)
qed

lemma post_sales_persisted:
  assumes "body_items b = Some items" "items \<noteq> []" "fault e \<noteq> Some 0"
  shows "sales (snd (post_sales e (Some u) b d)) = sales d @ [new_sale e u b items]"
proof (cases "run_statements e 0 (sale_statements (new_sale e u b items) b items) d")
  case (Pair completed d')
  with sale_statements_sales [OF assms(3), of "new_sale e u b items" b items d]
  have "sales d' = sales d @ [new_sale e u b items]" by simp
  with Pair assms(1,2) show ?thesis
    by (simp add: post_sales_def requireAuth_def create_sale_def)
qed

lemma post_sales_created:
  assumes "post_sales e user b d = (r, d')" and "status r = 201"
  obtains u items where "user = Some u" and "body_items b = Some items" and "items \<noteq> []"
    and "run_statements e 0 (sale_statements (new_sale e u b items) b items) d = (True, d')"
    and "r = Response 201 (SaleJson (new_sale e u b items))"
  using assms
  by (auto simp: post_sales_def requireAuth_def create_sale_def Let_def
      split: option.splits if_splits prod.splits)

lemma post_sales_succeeds:
  assumes "fault e = None" and "body_items b = Some items" and "items \<noteq> []"
  shows "status (fst (post_sales e (Some u) b d)) = 201"
proof -
  obtain completed d' where
    run: "run_statements e 0 (sale_statements (new_sale e u b items) b items) d = (completed, d')"
    by (cases "run_statements e 0 (sale_statements (new_sale e u b items) b items) d")
  with run_statements_accepted [OF assms(1), of 0 "sale_statements (new_sale e u b items) b items" d]
  have "completed" by simp
  with run assms(2,3) show ?thesis
    by (simp add: post_sales_def requireAuth_def create_sale_def)
qed



text \<open>
  Claim C3. A sale-creation request whose item list is absent or empty is answered 400
  \<^verbatim>\<open>Sale items are required\<close> (401 by \<open>requireAuth\<close> when there is no session) and
  the store is left exactly as it was.
\<close>

theorem empty_sale_rejected:
  assumes "body_items b = None \<or> body_items b = Some []"
  shows "post_sales e user b d =
           ((case user of
               Some u \<Rightarrow> Response 400 (ErrorJson ''Sale items are required'')
             | None \<Rightarrow> Response 401 (ErrorJson ''Authentication required'')), d)"
  using assms
  by (auto simp: post_sales_def requireAuth_def create_sale_def split: option.splits)

theorem empty_sale_rejected_witness:
  "post_sales ex_env (Some ex_user) (ex_sale_body\<lparr> body_items := Some [] \<rparr>) ex_db =
     (Response 400 (ErrorJson ''Sale items are required''), ex_db) \<and>
   post_sales ex_env (Some ex_user) (ex_sale_body\<lparr> body_items := None \<rparr>) ex_db =
     (Response 400 (ErrorJson ''Sale items are required''), ex_db)"
  using empty_sale_rejected [of "ex_sale_body\<lparr> body_items := Some [] \<rparr>" ex_env "Some ex_user" ex_db]
    empty_sale_rejected [of "ex_sale_body\<lparr> body_items := None \<rparr>" ex_env "Some ex_user" ex_db]
  by simp

text \<open>
  Claim C10. Whenever sale creation answers 201, the row it returned is the one appended
  to \<open>sales\<close>, with status \<^verbatim>\<open>completed\<close> and payment status \<^verbatim>\<open>paid\<close>, whatever
  the payments of the request are (in the witness: none, an empty list, and 100 paid on a
  total of 525).
\<close>

theorem sale_always_completed_paid:
  assumes "post_sales e user b d = (r, d')" and "status r = 201"
  shows "\<exists>row. body r = SaleJson row \<and> sales d' = sales d @ [row] \<and>
           sale_status row = ''completed'' \<and> sale_paymentStatus row = ''paid''"
proof -
  from assms obtain u items where u: "user = Some u" and items: "body_items b = Some items" "items \<noteq> []"
    and run: "run_statements e 0 (sale_statements (new_sale e u b items) b items) d = (True, d')"
    and r: "r = Response 201 (SaleJson (new_sale e u b items))"
    by (rule post_sales_created)
  from run have "fault e \<noteq> Some 0"
    unfolding sale_statements_def by (rule run_statements_first)
  with items have "sales (snd (post_sales e (Some u) b d)) = sales d @ [new_sale e u b items]"
    by (simp add: post_sales_persisted)
  with assms(1) u have "sales d' = sales d @ [new_sale e u b items]" by simp
  moreover have "sale_status (new_sale e u b items) = ''completed''"
    and "sale_paymentStatus (new_sale e u b items) = ''paid''"
    by (simp_all add: new_sale_def Let_def split: prod.splits)
  ultimately show ?thesis using r by simp
qed

theorem sale_always_completed_paid_witness:
  "(\<exists>row. fst (post_sales ex_env (Some ex_user) ex_sale_body ex_db) = Response 201 (SaleJson row) \<and>
      sales (snd (post_sales ex_env (Some ex_user) ex_sale_body ex_db)) = sales ex_db @ [row] \<and>
      sale_status row = ''completed'' \<and> sale_paymentStatus row = ''paid'') \<and>
   body_payments ex_sale_body = None \<and>
   (\<exists>row. fst (post_sales ex_env (Some ex_user) (ex_sale_body\<lparr> body_payments := Some [] \<rparr>) ex_db) =
            Response 201 (SaleJson row) \<and>
      sales (snd (post_sales ex_env (Some ex_user) (ex_sale_body\<lparr> body_payments := Some [] \<rparr>) ex_db)) =
        sales ex_db @ [row] \<and>
      sale_status row = ''completed'' \<and> sale_paymentStatus row = ''paid'') \<and>
   (\<exists>row. fst (post_sales ex_env (Some ex_user) ex_customer_sale_body ex_db) = Response 201 (SaleJson row) \<and>
      sales (snd (post_sales ex_env (Some ex_user) ex_customer_sale_body ex_db)) = sales ex_db @ [row] \<and>
      sale_status row = ''completed'' \<and> sale_paymentStatus row = ''paid'' \<and> sale_total row = 525) \<and>
   map_option (\<lambda>ps. sum_list (map pay_amount ps)) (body_payments ex_customer_sale_body) = Some 100"
proof -
  have store: "fault ex_env = None" by (simp add: ex_env_def)
  have created: "\<exists>row. fst (post_sales ex_env (Some ex_user) b ex_db) = Response 201 (SaleJson row) \<and>
      sales (snd (post_sales ex_env (Some ex_user) b ex_db)) = sales ex_db @ [row] \<and>
      sale_status row = ''completed'' \<and> sale_paymentStatus row = ''paid''"
    if "body_items b = Some items" and "items \<noteq> []" for b items
  proof -
    obtain r d' where p: "post_sales ex_env (Some ex_user) b ex_db = (r, d')"
      by (cases "post_sales ex_env (Some ex_user) b ex_db")
    with post_sales_succeeds [OF store that, of ex_user ex_db] have ok: "status r = 201" by simp
    from sale_always_completed_paid [OF p ok] obtain row where
      "body r = SaleJson row" "sales d' = sales ex_db @ [row]"
      "sale_status row = ''completed''" "sale_paymentStatus row = ''paid''"
      by blast
    with p ok show ?thesis by (cases r) simp
  qed
  have 1: "\<exists>row. fst (post_sales ex_env (Some ex_user) ex_sale_body ex_db) = Response 201 (SaleJson row) \<and>
      sales (snd (post_sales ex_env (Some ex_user) ex_sale_body ex_db)) = sales ex_db @ [row] \<and>
      sale_status row = ''completed'' \<and> sale_paymentStatus row = ''paid''"
    by (rule created [of _ "[ex_item]"]) (simp_all add: ex_sale_body_def)
  have 2: "\<exists>row. fst (post_sales ex_env (Some ex_user) (ex_sale_body\<lparr> body_payments := Some [] \<rparr>) ex_db) =
            Response 201 (SaleJson row) \<and>
      sales (snd (post_sales ex_env (Some ex_user) (ex_sale_body\<lparr> body_payments := Some [] \<rparr>) ex_db)) =
        sales ex_db @ [row] \<and>
      sale_status row = ''completed'' \<and> sale_paymentStatus row = ''paid''"
    by (rule created [of _ "[ex_item]"]) (simp_all add: ex_sale_body_def)
  from created [of ex_customer_sale_body "[ex_item, ex_serial_item]"] ex_customer_sale_response
  have 3: "\<exists>row. fst (post_sales ex_env (Some ex_user) ex_customer_sale_body ex_db) = Response 201 (SaleJson row) \<and>
      sales (snd (post_sales ex_env (Some ex_user) ex_customer_sale_body ex_db)) = sales ex_db @ [row] \<and>
      sale_status row = ''completed'' \<and> sale_paymentStatus row = ''paid'' \<and> sale_total row = 525"
    by (auto simp: ex_customer_sale_body_def)
  from 1 2 3 show ?thesis
    by (simp add: ex_sale_body_def ex_customer_sale_body_def ex_cash_def)
qed

section \<open>Sale creation: stock and serial numbers\<close>

lemma item_statements_products:
  assumes "run_statements e k (item_statements saleId customerId item) x = (True, x')"
  shows "map_option product_stock (products x' p) =
         map_option (\<lambda>n. n - (if item_productId item = p then item_quantity item else 0))
           (map_option product_stock (products x p))"
  using assms
  by (auto simp: item_statements_def insert_sale_item_def decrement_stock_def
      mark_serial_sold_def update_where_apply option.map_comp comp_def
      split: option.splits if_splits)

lemma items_products:
  assumes "run_statements e k (concat (map (item_statements saleId customerId) items)) x = (True, x')"
  shows "map_option product_stock (products x' p) =
         map_option (\<lambda>n. n - (\<Sum>item\<leftarrow>filter (\<lambda>i. item_productId i = p) items. item_quantity item))
           (map_option product_stock (products x p))"
  using assms
proof (induction items arbitrary: k x)
  case Nil
  then show ?case by (simp add: option.map_ident)
next
  case (Cons item items)
  from Cons.prems obtain m where
    1: "run_statements e k (item_statements saleId customerId item) x = (True, m)" and
    2: "run_statements e (k + length (item_statements saleId customerId item))
          (concat (map (item_statements saleId customerId) items)) m = (True, x')"
    by (auto elim: run_statements_append_success)
  show ?case
    unfolding Cons.IH [OF 2] item_statements_products [OF 1]
    by (cases "products x p") auto
qed

text \<open>The four stages of a sale creation that ran to its end.\<close>

lemma sale_statements_success:
  assumes "run_statements e 0 (sale_statements newSale b items) d = (True, d')"
  obtains d2 d3 where
    "run_statements e 1 (concat (map (item_statements (sale_id newSale) (body_customerId b)) items))
       (insert_sale newSale (clock e 0) d) = (True, d2)"
    and "run_statements e
           (1 + length (concat (map (item_statements (sale_id newSale) (body_customerId b)) items)))
           (payment_statements (sale_id newSale) (body_payments b)) d2 = (True, d3)"
    and "run_statements e
           (1 + length (concat (map (item_statements (sale_id newSale) (body_customerId b)) items)) +
              length (payment_statements (sale_id newSale) (body_payments b)))
           (customer_statements (body_customerId b) (sale_total newSale)) d3 = (True, d')"
proof -
  let ?is = "concat (map (item_statements (sale_id newSale) (body_customerId b)) items)"
  let ?ps = "payment_statements (sale_id newSale) (body_payments b)"
  let ?cs = "customer_statements (body_customerId b) (sale_total newSale)"
  from assms have "run_statements e 1 (?is @ ?ps @ ?cs) (insert_sale newSale (clock e 0) d) = (True, d')"
    by (simp add: sale_statements_def split: if_splits)
  then obtain d2 where 1: "run_statements e 1 ?is (insert_sale newSale (clock e 0) d) = (True, d2)"
    and "run_statements e (1 + length ?is) (?ps @ ?cs) d2 = (True, d')"
    by (rule run_statements_append_success)
  then obtain d3 where "run_statements e (1 + length ?is) ?ps d2 = (True, d3)"
    and "run_statements e (1 + length ?is + length ?ps) ?cs d3 = (True, d')"
    by (auto elim: run_statements_append_success)
  with 1 show thesis by (rule that)
qed

lemma payment_statements_frame:
  assumes "s \<in> set (payment_statements saleId ps)"
  shows "products (s t x) = products x" and "serialNumbers (s t x) = serialNumbers x"
    and "customers (s t x) = customers x"
  using assms
  by (auto simp: payment_statements_def insert_payment_def split: option.splits if_splits)

lemma customer_statements_frame:
  assumes "s \<in> set (customer_statements c total')"
  shows "products (s t x) = products x" and "serialNumbers (s t x) = serialNumbers x"
  using assms
  by (auto simp: customer_statements_def update_customer_stats_def split: option.splits)


lemma sale_statements_products:
  assumes "run_statements e 0 (sale_statements newSale b items) d = (True, d')"
  shows "map_option product_stock (products d' p) =
         map_option (\<lambda>n. n - (\<Sum>item\<leftarrow>filter (\<lambda>i. item_productId i = p) items. item_quantity item))
           (map_option product_stock (products d p))"
proof -
  from assms obtain d2 d3 where
    1: "run_statements e 1 (concat (map (item_statements (sale_id newSale) (body_customerId b)) items))
       (insert_sale newSale (clock e 0) d) = (True, d2)"
    and 2: "run_statements e
           (1 + length (concat (map (item_statements (sale_id newSale) (body_customerId b)) items)))
           (payment_statements (sale_id newSale) (body_payments b)) d2 = (True, d3)"
    and 3: "run_statements e
           (1 + length (concat (map (item_statements (sale_id newSale) (body_customerId b)) items)) +
              length (payment_statements (sale_id newSale) (body_payments b)))
           (customer_statements (body_customerId b) (sale_total newSale)) d3 = (True, d')"
    by (rule sale_statements_success)
  have "products d' = products d3"
    using 3 by (rule run_statements_success_preserves) (rule customer_statements_frame)
  also have "products d3 = products d2"
    using 2 by (rule run_statements_success_preserves) (rule payment_statements_frame)
  finally show ?thesis
    using items_products [OF 1, of p] by (simp add: insert_sale_def)
qed

text \<open>The three columns that selling a serial number writes.\<close>

lemma item_statements_serial_kept:
  assumes "s \<in> set (item_statements saleId customerId item)"
  shows "(serialNumbers (s t x) sn = None) = (serialNumbers x sn = None)"
  using assms
  by (auto simp: item_statements_def insert_sale_item_def decrement_stock_def mark_serial_sold_def
      update_where_apply split: option.splits if_splits)

lemma item_statements_sold_kept:
  assumes "s \<in> set (item_statements saleId customerId item)"
    and "\<forall>row. serialNumbers x sn = Some row \<longrightarrow>
           serial_status row = ''sold'' \<and> serial_saleId row = Some saleId \<and>
           serial_customerId row = customerId"
  shows "\<forall>row. serialNumbers (s t x) sn = Some row \<longrightarrow>
           serial_status row = ''sold'' \<and> serial_saleId row = Some saleId \<and>
           serial_customerId row = customerId"
  using assms
  by (auto simp: item_statements_def insert_sale_item_def decrement_stock_def mark_serial_sold_def
      update_where_apply split: option.splits if_splits)

lemma item_statements_sold:
  assumes "run_statements e k (item_statements saleId customerId item) x = (True, x')"
    and "item_serialNumber item = Some sn" and "sn \<noteq> []"
  shows "\<forall>row. serialNumbers x' sn = Some row \<longrightarrow>
           serial_status row = ''sold'' \<and> serial_saleId row = Some saleId \<and>
           serial_customerId row = customerId"
  using assms
  by (auto simp: item_statements_def insert_sale_item_def decrement_stock_def mark_serial_sold_def
      update_where_apply split: option.splits if_splits)

lemma items_sold_kept:
  assumes run: "run_statements e k (concat (map (item_statements saleId customerId) items)) x = (True, x')"
    and sold: "\<forall>row. serialNumbers x sn = Some row \<longrightarrow>
           serial_status row = ''sold'' \<and> serial_saleId row = Some saleId \<and>
           serial_customerId row = customerId"
  shows "\<forall>row. serialNumbers x' sn = Some row \<longrightarrow>
           serial_status row = ''sold'' \<and> serial_saleId row = Some saleId \<and>
           serial_customerId row = customerId"
proof (rule run_statements_success_invariant [OF run, where P = "\<lambda>y. \<forall>row. serialNumbers y sn = Some row \<longrightarrow>
           serial_status row = ''sold'' \<and> serial_saleId row = Some saleId \<and>
           serial_customerId row = customerId"])
  fix s :: statement and t and y :: database
  assume "s \<in> set (concat (map (item_statements saleId customerId) items))"
  then obtain i where "s \<in> set (item_statements saleId customerId i)" by auto
  moreover assume "\<forall>row. serialNumbers y sn = Some row \<longrightarrow>
           serial_status row = ''sold'' \<and> serial_saleId row = Some saleId \<and>
           serial_customerId row = customerId"
  ultimately show "\<forall>row. serialNumbers (s t y) sn = Some row \<longrightarrow>
           serial_status row = ''sold'' \<and> serial_saleId row = Some saleId \<and>
           serial_customerId row = customerId"
    by (rule item_statements_sold_kept)
qed (rule sold)

lemma items_sold:
  assumes "run_statements e k (concat (map (item_statements saleId customerId) items)) x = (True, x')"
    and "item \<in> set items" and "item_serialNumber item = Some sn" and "sn \<noteq> []"
  shows "\<forall>row. serialNumbers x' sn = Some row \<longrightarrow>
           serial_status row = ''sold'' \<and> serial_saleId row = Some saleId \<and>
           serial_customerId row = customerId"
  using assms
proof (induction items arbitrary: k x)
  case Nil
  then show ?case by simp
next
  case (Cons i items)
  from Cons.prems(1) obtain m where
    1: "run_statements e k (item_statements saleId customerId i) x = (True, m)" and
    2: "run_statements e (k + length (item_statements saleId customerId i))
          (concat (map (item_statements saleId customerId) items)) m = (True, x')"
    by (auto elim: run_statements_append_success)
  show ?case
  proof (cases "item = i")
    case True
    with 1 Cons.prems(3,4) have
      "\<forall>row. serialNumbers m sn = Some row \<longrightarrow>
           serial_status row = ''sold'' \<and> serial_saleId row = Some saleId \<and>
           serial_customerId row = customerId"
      by (simp add: item_statements_sold)
    with 2 show ?thesis by (rule items_sold_kept)
  next
    case False
    with Cons.prems(2) have "item \<in> set items" by simp
    then show ?thesis using Cons.prems(3,4) by (rule Cons.IH [OF 2])
  qed
qed

lemma items_serial_kept:
  assumes "run_statements e k (concat (map (item_statements saleId customerId) items)) x = (True, x')"
  shows "(serialNumbers x' sn = None) = (serialNumbers x sn = None)"
proof (rule run_statements_success_invariant [OF assms,
      where P = "\<lambda>y. (serialNumbers y sn = None) = (serialNumbers x sn = None)"])
  fix s :: statement and t and y :: database
  assume "s \<in> set (concat (map (item_statements saleId customerId) items))"
  then obtain i where "s \<in> set (item_statements saleId customerId i)" by auto
  then have "(serialNumbers (s t y) sn = None) = (serialNumbers y sn = None)"
    by (rule item_statements_serial_kept)
  moreover assume "(serialNumbers y sn = None) = (serialNumbers x sn = None)"
  ultimately show "(serialNumbers (s t y) sn = None) = (serialNumbers x sn = None)" by simp
qed simp

lemma sale_statements_serials_kept:
  assumes "run_statements e 0 (sale_statements newSale b items) d = (True, d')"
  shows "(serialNumbers d' sn = None) = (serialNumbers d sn = None)"
proof -
  from assms obtain d2 d3 where
    1: "run_statements e 1 (concat (map (item_statements (sale_id newSale) (body_customerId b)) items))
       (insert_sale newSale (clock e 0) d) = (True, d2)"
    and 2: "run_statements e
           (1 + length (concat (map (item_statements (sale_id newSale) (body_customerId b)) items)))
           (payment_statements (sale_id newSale) (body_payments b)) d2 = (True, d3)"
    and 3: "run_statements e
           (1 + length (concat (map (item_statements (sale_id newSale) (body_customerId b)) items)) +
              length (payment_statements (sale_id newSale) (body_payments b)))
           (customer_statements (body_customerId b) (sale_total newSale)) d3 = (True, d')"
    by (rule sale_statements_success)
  have "serialNumbers d' = serialNumbers d3"
    using 3 by (rule run_statements_success_preserves) (rule customer_statements_frame)
  also have "serialNumbers d3 = serialNumbers d2"
    using 2 by (rule run_statements_success_preserves) (rule payment_statements_frame)
  finally show ?thesis
    using items_serial_kept [OF 1, of sn] by (simp add: insert_sale_def)
qed

lemma sale_statements_serials_sold:
  assumes "run_statements e 0 (sale_statements newSale b items) d = (True, d')"
    and "item \<in> set items" and "item_serialNumber item = Some sn" and "sn \<noteq> []"
  shows "\<forall>row. serialNumbers d' sn = Some row \<longrightarrow>
           serial_status row = ''sold'' \<and> serial_saleId row = Some (sale_id newSale) \<and>
           serial_customerId row = body_customerId b"
proof -
  from assms(1) obtain d2 d3 where
    1: "run_statements e 1 (concat (map (item_statements (sale_id newSale) (body_customerId b)) items))
       (insert_sale newSale (clock e 0) d) = (True, d2)"
    and 2: "run_statements e
           (1 + length (concat (map (item_statements (sale_id newSale) (body_customerId b)) items)))
           (payment_statements (sale_id newSale) (body_payments b)) d2 = (True, d3)"
    and 3: "run_statements e
           (1 + length (concat (map (item_statements (sale_id newSale) (body_customerId b)) items)) +
              length (payment_statements (sale_id newSale) (body_payments b)))
           (customer_statements (body_customerId b) (sale_total newSale)) d3 = (True, d')"
    by (rule sale_statements_success)
  have "serialNumbers d' = serialNumbers d3"
    using 3 by (rule run_statements_success_preserves) (rule customer_statements_frame)
  also have "serialNumbers d3 = serialNumbers d2"
    using 2 by (rule run_statements_success_preserves) (rule payment_statements_frame)
  finally show ?thesis
    using items_sold [OF 1 assms(2,3,4)] by simp
qed

lemma new_sale_references:
  "sale_id (new_sale e u b items) = new_id e"
  "sale_customerId (new_sale e u b items) = body_customerId b"
  "sale_createdAt (new_sale e u b items) = clock e 0"
  by (simp_all add: new_sale_def Let_def split: prod.splits)


text \<open>
  Claim C2. When sale creation answers 201, the stock of every product has gone down by
  the quantities of the items that name it, with no test against zero (in the witness a
  product with stock 0 ends at -1), and for every item that carries a non-empty serial
  number, the serial-number row with that number, if there is one, has status
  \<^verbatim>\<open>sold\<close>, the id of the new sale and the customer of the new sale.
\<close>

theorem sale_stock_and_serials:
  assumes "post_sales e user b d = (r, d')" and "status r = 201"
  shows "\<exists>sale items. body r = SaleJson sale \<and> body_items b = Some items \<and>
     (\<forall>p. map_option product_stock (products d' p) =
            map_option (\<lambda>stock. stock - (\<Sum>item\<leftarrow>filter (\<lambda>i. item_productId i = p) items. item_quantity item))
              (map_option product_stock (products d p))) \<and>
     (\<forall>item\<in>set items. \<forall>sn. item_serialNumber item = Some sn \<and> sn \<noteq> [] \<longrightarrow>
        (serialNumbers d' sn = None) = (serialNumbers d sn = None) \<and>
        (\<forall>row. serialNumbers d' sn = Some row \<longrightarrow>
           serial_status row = ''sold'' \<and> serial_saleId row = Some (sale_id sale) \<and>
           serial_customerId row = sale_customerId sale))"
proof -
  from assms obtain u items where items: "body_items b = Some items"
    and run: "run_statements e 0 (sale_statements (new_sale e u b items) b items) d = (True, d')"
    and r: "r = Response 201 (SaleJson (new_sale e u b items))"
    by (rule post_sales_created)
  let ?sale = "new_sale e u b items"
  have "body r = SaleJson ?sale" using r by simp
  moreover have "\<forall>p. map_option product_stock (products d' p) =
            map_option (\<lambda>stock. stock - (\<Sum>item\<leftarrow>filter (\<lambda>i. item_productId i = p) items. item_quantity item))
              (map_option product_stock (products d p))"
    using sale_statements_products [OF run] by blast
  moreover have "\<forall>item\<in>set items. \<forall>sn. item_serialNumber item = Some sn \<and> sn \<noteq> [] \<longrightarrow>
        (serialNumbers d' sn = None) = (serialNumbers d sn = None) \<and>
        (\<forall>row. serialNumbers d' sn = Some row \<longrightarrow>
           serial_status row = ''sold'' \<and> serial_saleId row = Some (sale_id ?sale) \<and>
           serial_customerId row = sale_customerId ?sale)"
    using sale_statements_serials_kept [OF run] sale_statements_serials_sold [OF run]
    by (simp add: new_sale_references)
  ultimately show ?thesis using items by blast
qed

theorem sale_stock_and_serials_witness:
  "status (fst (post_sales ex_env (Some ex_user) ex_customer_sale_body ex_db)) = 201 \<and>
   map_option product_stock (products ex_db 11) = Some 0 \<and>
   map_option product_stock
     (products (snd (post_sales ex_env (Some ex_user) ex_customer_sale_body ex_db)) 11) = Some (- 1) \<and>
   map_option serial_status (serialNumbers ex_db ''SN-1'') = Some ''available'' \<and>
   (\<exists>row. serialNumbers (snd (post_sales ex_env (Some ex_user) ex_customer_sale_body ex_db)) ''SN-1''
            = Some row \<and>
          serial_status row = ''sold'' \<and> serial_saleId row = Some 7 \<and>
          serial_customerId row = Some 5)"
proof -
  obtain r d' where p: "post_sales ex_env (Some ex_user) ex_customer_sale_body ex_db = (r, d')"
    by (cases "post_sales ex_env (Some ex_user) ex_customer_sale_body ex_db")
  with ex_customer_sale_created have ok: "status r = 201" by simp
  from p ok obtain u sold where
    body: "r = Response 201 (SaleJson (new_sale ex_env u ex_customer_sale_body sold))"
    by (rule post_sales_created)
  from sale_stock_and_serials [OF p ok] obtain sale items where
    sale: "body r = SaleJson sale" and items: "body_items ex_customer_sale_body = Some items"
    and stock: "\<forall>p. map_option product_stock (products d' p) =
            map_option (\<lambda>stock. stock - (\<Sum>item\<leftarrow>filter (\<lambda>i. item_productId i = p) items. item_quantity item))
              (map_option product_stock (products ex_db p))"
    and serial: "\<forall>item\<in>set items. \<forall>sn. item_serialNumber item = Some sn \<and> sn \<noteq> [] \<longrightarrow>
        (serialNumbers d' sn = None) = (serialNumbers ex_db sn = None) \<and>
        (\<forall>row. serialNumbers d' sn = Some row \<longrightarrow>
           serial_status row = ''sold'' \<and> serial_saleId row = Some (sale_id sale) \<and>
           serial_customerId row = sale_customerId sale)"
    by blast
  from items have items_eq: "items = [ex_item, ex_serial_item]"
    by (simp add: ex_customer_sale_body_def)
  from sale body have "sale = new_sale ex_env u ex_customer_sale_body sold" by simp
  then have sale_eq: "sale_id sale = 7" "sale_customerId sale = Some 5"
    by (simp_all add: new_sale_references ex_env_def ex_customer_sale_body_def)
  have stock11: "map_option product_stock (products d' 11) = Some (- 1)"
    using stock [rule_format, of 11]
    by (simp add: items_eq ex_db_def empty_database_def ex_item_def ex_serial_item_def ex_sold_out_def)
  moreover have "ex_serial_item \<in> set items" by (simp add: items_eq)
  moreover have "item_serialNumber ex_serial_item = Some ''SN-1'' \<and> ''SN-1'' \<noteq> []"
    by (simp add: ex_serial_item_def)
  ultimately have "(serialNumbers d' ''SN-1'' = None) = (serialNumbers ex_db ''SN-1'' = None) \<and>
        (\<forall>row. serialNumbers d' ''SN-1'' = Some row \<longrightarrow>
           serial_status row = ''sold'' \<and> serial_saleId row = Some (sale_id sale) \<and>
           serial_customerId row = sale_customerId sale)"
    using serial by blast
  then have sold: "\<exists>row. serialNumbers d' ''SN-1'' = Some row \<and>
          serial_status row = ''sold'' \<and> serial_saleId row = Some 7 \<and>
          serial_customerId row = Some 5"
    using sale_eq by (auto simp: ex_db_def empty_database_def)
  from stock11 sold show ?thesis
    using p ok by (simp add: ex_db_def empty_database_def ex_sold_out_def ex_serial_def)
qed

section \<open>Sale creation: customer statistics\<close>








section \<open>Purchase creation\<close>



lemma purchase_item_statements_frame:
  assumes "s \<in> set (purchase_item_statements purchaseId item)"
  shows "purchases (s t x) = purchases x" and "suppliers (s t x) = suppliers x"
  using assms
  by (auto simp: purchase_item_statements_def insert_purchase_item_def restock_def)

lemma purchase_statements_suppliers:
  "suppliers (snd (run_statements e k (purchase_statements newPurchase items) d)) = suppliers d"
proof (rule run_statements_preserves)
  fix s :: statement and t and x :: database
  assume "s \<in> set (purchase_statements newPurchase items)"
  then consider "s = insert_purchase newPurchase"
    | i where "s \<in> set (purchase_item_statements (purchase_id newPurchase) i)"
    by (auto simp: purchase_statements_def)
  then show "suppliers (s t x) = suppliers x"
    by cases (simp_all add: insert_purchase_def purchase_item_statements_frame)
qed

text \<open>No path through purchase creation writes to \<open>suppliers\<close>.\<close>

lemma post_purchases_suppliers:
  "suppliers (snd (post_purchases e user b d)) = suppliers d"
proof -
  have "suppliers (snd (create_purchase e user b d)) = suppliers d"
  proof (cases "pbody_items b")
    case None
    then show ?thesis by (simp add: create_purchase_def)
  next
    case (Some items)
    show ?thesis
    proof (cases user)
      case None
      with Some show ?thesis by (simp add: create_purchase_def)
    next
      case (Some u)
      obtain completed d' where
        run: "run_statements e 0 (purchase_statements (new_purchase e u b items) items) d = (completed, d')"
        by (cases "run_statements e 0 (purchase_statements (new_purchase e u b items) items) d")
      with purchase_statements_suppliers [of e 0 "new_purchase e u b items" items d]
      have "suppliers d' = suppliers d" by simp
      with run Some \<open>pbody_items b = Some items\<close> show ?thesis
        by (simp add: create_purchase_def)
    qed
  qed
  then show ?thesis
    by (simp add: post_purchases_def split: option.splits)
qed








text \<open>
  Claim C7, at a failing input. A manager records a purchase of 510 from supplier 3, to
  whom nothing was owed. The purchase is created (201, with its own balance 510), and the
  supplier's balance is still 0: purchase creation issues no statement on \<open>suppliers\<close>
  (\<open>post_purchases_suppliers\<close>), although the payment paths subtract what is paid from
  that balance.
\<close>

theorem purchase_leaves_supplier_balance:
  "fst (post_purchases ex_env (Some ex_manager) ex_purchase_body ex_db) =
     Response 201 (PurchaseJson
       \<lparr> purchase_id = 7, purchase_supplierId = Some 3, purchase_userId = 2,
         purchase_invoiceNumber = Some ''S-100'', purchase_total = 510, purchase_paid = 0,
         purchase_balance = 510, purchase_status = ''pending'', purchase_documents = None,
         purchase_createdAt = 1000 \<rparr>) \<and>
   map_option supplier_balance (suppliers ex_db 3) = Some 0 \<and>
   map_option supplier_balance
     (suppliers (snd (post_purchases ex_env (Some ex_manager) ex_purchase_body ex_db)) 3) = Some 0"
  using ex_purchase_response
  by (simp add: post_purchases_suppliers ex_db_def empty_database_def ex_supplier_def)

section \<open>RMA status update\<close>



section \<open>Login failures\<close>




section \<open>Convert to sale\<close>

text \<open>
  Claim C9, as amended. For a session user, an existing quotation or PC build and a store
  that accepts the statements, convert-to-sale answers 200 with the computed sale payload
  and the store afterwards is the store before with one row changed, the source record:
  its status is \<^verbatim>\<open>converted\<close> (quotation) or \<^verbatim>\<open>purchased\<close> (PC build) and its
  \<^verbatim>\<open>updatedAt\<close> is the clock reading of the update. No sale, sale item, payment,
  product, serial number or customer row is written.
\<close>

theorem convert_to_sale_marks_source:
  assumes "fault e = None"
  shows "(\<forall>quote. quotations d id' = Some quote \<longrightarrow>
            post_quotations_convert_to_sale e (Some u) id' b d =
              (Response 200 (ConvertedJson ''Quotation converted to sale successfully''
                               (quotation_sale_data d id' quote b)),
               d\<lparr> quotations := (quotations d)(id' \<mapsto>
                    quote\<lparr> quotation_status := ''converted'', quotation_updatedAt := clock e 2 \<rparr>) \<rparr>)) \<and>
         (\<forall>build components. pcBuilds d id' = Some build \<and>
              components = (case build_components build of None \<Rightarrow> [] | Some cs \<Rightarrow> cs) \<longrightarrow>
            post_pc_builder_convert_to_sale e (Some u) id' b d =
              (Response 200 (ConvertedJson ''PC build converted to sale successfully''
                               (build_sale_data d build b)),
               d\<lparr> pcBuilds := (pcBuilds d)(id' \<mapsto>
                    build\<lparr> build_status := ''purchased'',
                           build_updatedAt := clock e (1 + length components) \<rparr>) \<rparr>))"
  using assms by (auto simp: convert_defs run_selects)

text \<open>
  Claim C9 as stated fails where it says that the status is the only change: the update
  also stamps \<^verbatim>\<open>updatedAt\<close>, so the source record afterwards is not the old record
  with a new status.
\<close>

theorem convert_to_sale_counterexample:
  "quotations ex_db 30 = Some ex_quotation \<and>
   quotations (snd (post_quotations_convert_to_sale ex_env (Some ex_user) 30 ex_convert_body ex_db)) 30 =
     Some (ex_quotation\<lparr> quotation_status := ''converted'', quotation_updatedAt := 1002 \<rparr>) \<and>
   ex_quotation\<lparr> quotation_status := ''converted'', quotation_updatedAt := 1002 \<rparr> \<noteq>
     ex_quotation\<lparr> quotation_status := ''converted'' \<rparr> \<and>
   pcBuilds ex_db 40 = Some ex_build \<and>
   pcBuilds (snd (post_pc_builder_convert_to_sale ex_env (Some ex_user) 40 ex_convert_body ex_db)) 40 =
     Some (ex_build\<lparr> build_status := ''purchased'', build_updatedAt := 1003 \<rparr>) \<and>
   ex_build\<lparr> build_status := ''purchased'', build_updatedAt := 1003 \<rparr> \<noteq>
     ex_build\<lparr> build_status := ''purchased'' \<rparr>"
  by (simp add: convert_defs ex_defs)

theorem convert_to_sale_marks_source_witness:
  "fault ex_env = None \<and> quotations ex_db 30 = Some ex_quotation \<and>
   post_quotations_convert_to_sale ex_env (Some ex_user) 30 ex_convert_body ex_db =
     (Response 200 (ConvertedJson ''Quotation converted to sale successfully''
        \<lparr> sd_customerId = Some 5,
          sd_items = [\<lparr> ci_productId = Some 10, ci_variantId = None, ci_quantity = 1,
                        ci_unitPrice = 150, ci_costPrice = 100 \<rparr>],
          sd_discount = 10, sd_tax = 0, sd_payments = None,
          sd_notes = ''Converted from Quotation: QT-1'' \<rparr>),
      ex_db\<lparr> quotations := [30 \<mapsto>
         ex_quotation\<lparr> quotation_status := ''converted'', quotation_updatedAt := 1002 \<rparr>] \<rparr>) \<and>
   pcBuilds ex_db 40 = Some ex_build \<and>
   post_pc_builder_convert_to_sale ex_env (Some ex_user) 40 ex_convert_body ex_db =
     (Response 200 (ConvertedJson ''PC build converted to sale successfully''
        \<lparr> sd_customerId = Some 5,
          sd_items = [\<lparr> ci_productId = Some 10, ci_variantId = None, ci_quantity = 1,
                        ci_unitPrice = 150, ci_costPrice = 100 \<rparr>],
          sd_discount = 0, sd_tax = 0, sd_payments = None,
          sd_notes = ''Converted from PC Build: Gaming PC'' \<rparr>),
      ex_db\<lparr> pcBuilds := [40 \<mapsto>
         ex_build\<lparr> build_status := ''purchased'', build_updatedAt := 1003 \<rparr>] \<rparr>)"
proof -
  have store: "fault ex_env = None" by (simp add: ex_env_def)
  have quote: "quotations ex_db 30 = Some ex_quotation"
    and build: "pcBuilds ex_db 40 = Some ex_build"
    by (simp_all add: ex_db_def empty_database_def)
  have payload: "quotation_sale_data ex_db 30 ex_quotation ex_convert_body =
        \<lparr> sd_customerId = Some 5,
          sd_items = [\<lparr> ci_productId = Some 10, ci_variantId = None, ci_quantity = 1,
                        ci_unitPrice = 150, ci_costPrice = 100 \<rparr>],
          sd_discount = 10, sd_tax = 0, sd_payments = None,
          sd_notes = ''Converted from Quotation: QT-1'' \<rparr>"
    by (simp add: quotation_sale_data_def quote_sale_item_def notes_or_def ex_defs)
  have payload': "build_sale_data ex_db ex_build ex_convert_body =
        \<lparr> sd_customerId = Some 5,
          sd_items = [\<lparr> ci_productId = Some 10, ci_variantId = None, ci_quantity = 1,
                        ci_unitPrice = 150, ci_costPrice = 100 \<rparr>],
          sd_discount = 0, sd_tax = 0, sd_payments = None,
          sd_notes = ''Converted from PC Build: Gaming PC'' \<rparr>"
    by (simp add: build_sale_data_def component_sale_items_def notes_or_def ex_defs)
  have marked: "(quotations ex_db)(30 \<mapsto>
          ex_quotation\<lparr> quotation_status := ''converted'', quotation_updatedAt := clock ex_env 2 \<rparr>) =
        [30 \<mapsto> ex_quotation\<lparr> quotation_status := ''converted'', quotation_updatedAt := 1002 \<rparr>]"
    by (simp add: ex_db_def empty_database_def ex_env_def ex_clock_def)
  have marked': "(pcBuilds ex_db)(40 \<mapsto>
          ex_build\<lparr> build_status := ''purchased'',
             build_updatedAt := clock ex_env (1 + length (case build_components ex_build of None \<Rightarrow> [] | Some cs \<Rightarrow> cs)) \<rparr>) =
        [40 \<mapsto> ex_build\<lparr> build_status := ''purchased'', build_updatedAt := 1003 \<rparr>]"
    by (simp add: ex_db_def empty_database_def ex_env_def ex_clock_def ex_build_def)
  from convert_to_sale_marks_source [OF store, of ex_db 30 ex_user ex_convert_body] quote
  have "post_quotations_convert_to_sale ex_env (Some ex_user) 30 ex_convert_body ex_db =
     (Response 200 (ConvertedJson ''Quotation converted to sale successfully''
        (quotation_sale_data ex_db 30 ex_quotation ex_convert_body)),
      ex_db\<lparr> quotations := (quotations ex_db)(30 \<mapsto>
          ex_quotation\<lparr> quotation_status := ''converted'', quotation_updatedAt := clock ex_env 2 \<rparr>) \<rparr>)"
    by blast
  moreover
  from convert_to_sale_marks_source [OF store, of ex_db 40 ex_user ex_convert_body] build
  have "post_pc_builder_convert_to_sale ex_env (Some ex_user) 40 ex_convert_body ex_db =
     (Response 200 (ConvertedJson ''PC build converted to sale successfully''
        (build_sale_data ex_db ex_build ex_convert_body)),
      ex_db\<lparr> pcBuilds := (pcBuilds ex_db)(40 \<mapsto>
          ex_build\<lparr> build_status := ''purchased'',
             build_updatedAt := clock ex_env (1 + length (case build_components ex_build of None \<Rightarrow> [] | Some cs \<Rightarrow> cs)) \<rparr>) \<rparr>)"
    by blast
  ultimately show ?thesis
    unfolding payload payload' marked marked' using store quote build by simp
qed

end
